theory Spec2Isabelle
  imports Main "HOL-Library.AList"
begin

section \<open>JavaScript values\<close>

text \<open>
  The console script works on values decoded from JSON and on the results of property
  reads on them. \<open>JUndefined\<close> is the result of reading a property that is not there.
  Numbers are restricted to integers whose \<open>String\<close> rendering is the plain decimal one;
  strings are lists of 8-bit code units.
\<close>

datatype jsval =
    JUndefined
  | JNull
  | JBool bool
  | JNum int
  | JStr string
  | JArr "jsval list"
  | JObj "(string \<times> jsval) list"

text \<open>Truthiness, as tested by \<open>if (x)\<close>, \<open>x || y\<close>, \<open>x && y\<close> and \<open>!x\<close>.\<close>

fun truthy :: "jsval \<Rightarrow> bool" where
  "truthy JUndefined = False"
| "truthy JNull = False"
| "truthy (JBool b) = b"
| "truthy (JNum n) = (n \<noteq> 0)"
| "truthy (JStr s) = (s \<noteq> [])"
| "truthy (JArr xs) = True"
| "truthy (JObj kvs) = True"

definition js_or :: "jsval \<Rightarrow> jsval \<Rightarrow> jsval" where
  "js_or a b = (if truthy a then a else b)"

definition js_and :: "jsval \<Rightarrow> jsval \<Rightarrow> jsval" where
  "js_and a b = (if truthy a then b else a)"

fun nullish :: "jsval \<Rightarrow> bool" where
  "nullish JUndefined = True"
| "nullish JNull = True"
| "nullish v = False"

text \<open>
  \<open>v?.k\<close> and, on a value known not to be null or undefined, \<open>v.k\<close>, for the keys the
  script reads (none of them is a built-in property of strings or arrays).
\<close>

fun js_get :: "jsval \<Rightarrow> string \<Rightarrow> jsval" where
  "js_get (JObj kvs) k = (case map_of kvs k of None \<Rightarrow> JUndefined | Some v \<Rightarrow> v)"
| "js_get v k = JUndefined"

fun isArray :: "jsval \<Rightarrow> bool" where
  "isArray (JArr xs) = True"
| "isArray v = False"

fun elements :: "jsval \<Rightarrow> jsval list" where
  "elements (JArr xs) = xs"
| "elements v = []"

definition digit_char :: "nat \<Rightarrow> char" where
  "digit_char d = char_of (of_char (CHR ''0'') + d)"

fun show_nat :: "nat \<Rightarrow> string" where
  "show_nat n = (if n < 10 then [digit_char n] else show_nat (n div 10) @ [digit_char (n mod 10)])"

declare show_nat.simps [simp del]

definition show_int :: "int \<Rightarrow> string" where
  "show_int i = (if i < 0 then CHR ''-'' # show_nat (nat (- i)) else show_nat (nat i))"

fun intersperse_comma :: "string list \<Rightarrow> string" where
  "intersperse_comma [] = []"
| "intersperse_comma [s] = s"
| "intersperse_comma (s # t # r) = s @ '','' @ intersperse_comma (t # r)"

text \<open>\<open>String(v)\<close>. Inside an array, null and undefined elements render as the empty string.\<close>

fun js_String :: "jsval \<Rightarrow> string" where
  "js_String JUndefined = ''undefined''"
| "js_String JNull = ''null''"
| "js_String (JBool b) = (if b then ''true'' else ''false'')"
| "js_String (JNum n) = show_int n"
| "js_String (JStr s) = s"
| "js_String (JArr xs) = intersperse_comma (map (\<lambda>x. if nullish x then [] else js_String x) xs)"
| "js_String (JObj kvs) = ''[object Object]''"

text \<open>\<open>String.prototype.trim\<close> on 8-bit code units: tab, line feed, vertical tab, form feed,
  carriage return, space and no-break space are stripped from both ends.\<close>

definition is_js_space :: "char \<Rightarrow> bool" where
  "is_js_space c = (of_char c \<in> {9, 10, 11, 12, 13, 32, 160 :: nat})"

definition trim :: "string \<Rightarrow> string" where
  "trim s = rev (dropWhile is_js_space (rev (dropWhile is_js_space s)))"

section \<open>Errors and requests\<close>

datatype js_error = Error string | TypeError string

fun error_String :: "js_error \<Rightarrow> string" where
  "error_String (Error m) = ''Error: '' @ m"
| "error_String (TypeError m) = ''TypeError: '' @ m"

text \<open>A request handed to \<open>fetch\<close>. The body is the value given to \<open>JSON.stringify\<close>; the
  query is the list given to \<open>URLSearchParams\<close>.\<close>

record request =
  path :: string
  query :: "(string \<times> string) list"
  http_method :: "string option"
  headers :: "(string \<times> string) list"
  body :: "jsval option"

record http_response =
  ok :: bool
  status :: nat
  statusText :: string
  body_text :: string

datatype fetch_outcome = Rejected js_error | Response http_response

record api_options =
  opt_method :: "string option"
  opt_headers :: "(string \<times> string) list option"
  opt_body :: "jsval option"

definition no_options :: api_options where
  "no_options = \<lparr>opt_method = None, opt_headers = None, opt_body = None\<rparr>"

text \<open>How a call of an async function ends its current turn.\<close>

datatype outcome = Returned | Thrown js_error | Awaiting

section \<open>The console state\<close>

record event_line =
  kind :: string
  payload :: jsval

definition TOKEN_STORAGE_KEY :: string where
  "TOKEN_STORAGE_KEY = ''codexmonitor.webGateway.token''"

definition MAX_EVENT_LINES :: nat where
  "MAX_EVENT_LINES = 300"

text \<open>
  One record holds the script's \<open>state\<close> object, the parts of the page elements \<open>els\<close> that
  the script reads back (\<open>None\<close> when the element is not in the page), the browser's local
  storage and timers, and the list of requests handed to \<open>fetch\<close> so far.
\<close>

record world =
  token :: string
  workspaces :: "jsval list"
  activeWorkspaceId :: string
  threads :: "jsval list"
  activeThreadId :: string
  ws_open :: bool
  refreshThreadsTimer :: "nat option"
  tokenInput :: "string option"
  workspaceSelect :: bool
  threadIdInput :: "string option"
  accessModeSelect :: "string option"
  messageInput :: "string option"
  eventsLog :: "event_line list option"
  localStorage :: "(string \<times> string) list"
  clock :: nat
  timerSeq :: nat
  timers :: "(nat \<times> nat) list"
  net :: "request list"

section \<open>Event log\<close>

text \<open>The \<open>while\<close> loop of \<open>appendEvent\<close>: drop the last child while there are too many.\<close>

function evict :: "event_line list \<Rightarrow> event_line list" where
  "evict ls = (if length ls > MAX_EVENT_LINES then evict (butlast ls) else ls)"
  by pat_completeness auto
termination
  by (relation "measure length") auto

declare evict.simps [simp del]

text \<open>\<open>appendEvent(kind, payload)\<close>: the new line is put in front. The time stamp and the
  HTML escaping of the line are display only.\<close>

definition appendEvent :: "world \<Rightarrow> string \<Rightarrow> jsval \<Rightarrow> world" where
  "appendEvent w k p =
     (case eventsLog w of
        None \<Rightarrow> w
      | Some ls \<Rightarrow> w\<lparr>eventsLog := Some (evict (\<lparr>kind = k, payload = p\<rparr> # ls))\<rparr>)"

fun appendEvents :: "world \<Rightarrow> (string \<times> jsval) list \<Rightarrow> world" where
  "appendEvents w [] = w"
| "appendEvents w ((k, p) # es) = appendEvents (appendEvent w k p) es"

definition mk_line :: "string \<times> jsval \<Rightarrow> event_line" where
  "mk_line e = \<lparr>kind = fst e, payload = snd e\<rparr>"

section \<open>Request client\<close>

text \<open>\<open>authHeaders(extra)\<close>: the caller's headers, with the bearer token set when one is held.\<close>

definition authHeaders :: "world \<Rightarrow> (string \<times> string) list option \<Rightarrow> (string \<times> string) list" where
  "authHeaders w extra =
     (let hs = (case extra of None \<Rightarrow> [] | Some e \<Rightarrow> e)
      in if token w \<noteq> [] then AList.update ''Authorization'' (''Bearer '' @ token w) hs else hs)"

text \<open>\<open>api(path, options)\<close> up to \<open>await fetch\<close>: the request that is sent.\<close>

definition api_request :: "world \<Rightarrow> string \<Rightarrow> (string \<times> string) list \<Rightarrow> api_options \<Rightarrow> request" where
  "api_request w p q opts =
     (let hs = authHeaders w (opt_headers opts);
          hs' = (if opt_body opts \<noteq> None \<and>
                    (case map_of hs ''Content-Type'' of None \<Rightarrow> True | Some v \<Rightarrow> v = [])
                 then AList.update ''Content-Type'' ''application/json'' hs else hs)
      in \<lparr>path = p, query = q, http_method = opt_method opts, headers = hs', body = opt_body opts\<rparr>)"

text \<open>
  \<open>api\<close> from the answer of \<open>fetch\<close> on: decode the body, throw on a failure status.
  \<open>JSON.parse\<close> is the parameter \<open>P\<close>; it gives \<open>None\<close> where the built-in throws.
\<close>

definition decode_body :: "(string \<Rightarrow> jsval option) \<Rightarrow> string \<Rightarrow> jsval" where
  "decode_body P rawText =
     (if rawText \<noteq> []
      then (case P rawText of Some v \<Rightarrow> v | None \<Rightarrow> JObj [(''raw'', JStr rawText)])
      else JNull)"

definition api_result :: "(string \<Rightarrow> jsval option) \<Rightarrow> fetch_outcome \<Rightarrow> js_error + jsval" where
  "api_result P out =
     (case out of
        Rejected e \<Rightarrow> Inl e
      | Response r \<Rightarrow>
          (let pl = decode_body P (body_text r)
           in if \<not> ok r
              then Inl (Error (if truthy (js_and pl (js_get pl ''error''))
                               then js_String (js_get pl ''error'')
                               else show_nat (status r) @ '' '' @ statusText r))
              else Inr pl))"

text \<open>\<open>api(path, options)\<close> as a whole, when nothing else runs while the request is in flight:
  the request is recorded as sent and the outcome of \<open>fetch\<close> decides the result.\<close>

definition api ::
  "(string \<Rightarrow> jsval option) \<Rightarrow> world \<Rightarrow> string \<Rightarrow> (string \<times> string) list \<Rightarrow> api_options \<Rightarrow> fetch_outcome
     \<Rightarrow> world \<times> (js_error + jsval)" where
  "api P w p q opts out = (w\<lparr>net := net w @ [api_request w p q opts]\<rparr>, api_result P out)"

section \<open>Threads and workspaces\<close>

fun is_object :: "jsval \<Rightarrow> bool" where
  "is_object (JArr xs) = True"
| "is_object (JObj kvs) = True"
| "is_object v = False"

definition extractThreadList :: "jsval \<Rightarrow> jsval list" where
  "extractThreadList rawResponse =
     (if \<not> truthy rawResponse \<or> \<not> is_object rawResponse then []
      else if isArray (js_get rawResponse ''threads'') then elements (js_get rawResponse ''threads'')
      else let result = js_get rawResponse ''result''
           in if truthy result \<and> isArray (js_get result ''data'') then elements (js_get result ''data'')
              else if isArray (js_get rawResponse ''data'') then elements (js_get rawResponse ''data'')
              else [])"

definition extractThreadId :: "jsval \<Rightarrow> string" where
  "extractThreadId thread = js_String (js_or (js_get thread ''id'') (JStr []))"

text \<open>
  \<open>renderWorkspaces()\<close>. Reading \<open>workspace.id\<close> in the loop over the collection throws when
  an entry is null; the message of that error is the engine's. The option elements written
  to the select are display only.
\<close>

definition renderWorkspaces :: "world \<Rightarrow> world \<times> outcome" where
  "renderWorkspaces w =
     (if \<not> workspaceSelect w then (w, Returned)
      else let previous = activeWorkspaceId w
           in if list_ex nullish (workspaces w) then (w, Thrown (TypeError ''workspace.id''))
              else (case workspaces w of
                      [] \<Rightarrow> (w\<lparr>activeWorkspaceId := []\<rparr>, Returned)
                    | first # _ \<Rightarrow>
                        (w\<lparr>activeWorkspaceId :=
                              (if list_ex (\<lambda>x. js_String (js_get x ''id'') = previous) (workspaces w)
                               then previous
                               else js_String (js_or (js_get first ''id'') (JStr [])))\<rparr>,
                         Returned)))"

text \<open>\<open>refreshThreads()\<close> up to \<open>await api\<close>.\<close>

definition threads_request :: "world \<Rightarrow> request" where
  "threads_request w =
     api_request w ''/api/threads''
       [(''workspaceId'', activeWorkspaceId w), (''limit'', ''40''), (''sortKey'', ''updated_at'')]
       no_options"

definition refreshThreads_begin :: "world \<Rightarrow> world \<times> outcome" where
  "refreshThreads_begin w =
     (if activeWorkspaceId w = [] then (w\<lparr>threads := []\<rparr>, Returned)
      else (w\<lparr>net := net w @ [threads_request w]\<rparr>, Awaiting))"

text \<open>\<open>refreshThreads()\<close> from the answer on, run on the state as it is at that moment.\<close>

definition reconcileThread :: "string \<Rightarrow> jsval list \<Rightarrow> string" where
  "reconcileThread active ths =
     (let a1 = (if active \<noteq> [] \<and> \<not> list_ex (\<lambda>t. extractThreadId t = active) ths then [] else active)
      in case ths of
           [] \<Rightarrow> a1
         | first # _ \<Rightarrow> (if a1 = [] then extractThreadId first else a1))"

definition refreshThreads_resume :: "(string \<Rightarrow> jsval option) \<Rightarrow> world \<Rightarrow> fetch_outcome \<Rightarrow> world \<times> outcome" where
  "refreshThreads_resume P w out =
     (case api_result P out of
        Inl e \<Rightarrow> (w, Thrown e)
      | Inr pl \<Rightarrow>
          (let ths = extractThreadList pl;
               a = reconcileThread (activeThreadId w) ths
           in (w\<lparr>threads := ths, activeThreadId := a,
                  threadIdInput := map_option (\<lambda>_. a) (threadIdInput w)\<rparr>, Returned)))"

text \<open>\<open>refreshThreads()\<close> when nothing else runs while the request is in flight.\<close>

definition refreshThreads :: "(string \<Rightarrow> jsval option) \<Rightarrow> world \<Rightarrow> fetch_outcome \<Rightarrow> world \<times> outcome" where
  "refreshThreads P w out =
     (case refreshThreads_begin w of
        (w1, Awaiting) \<Rightarrow> refreshThreads_resume P w1 out
      | r \<Rightarrow> r)"

text \<open>\<open>refreshWorkspaces()\<close>: up to the first \<open>await\<close>, and from the answer to the workspace
  request up to the end or to the \<open>await\<close> inside \<open>refreshThreads\<close>.\<close>

definition refreshWorkspaces_begin :: "world \<Rightarrow> world \<times> outcome" where
  "refreshWorkspaces_begin w =
     (w\<lparr>net := net w @ [api_request w ''/api/workspaces'' [] no_options]\<rparr>, Awaiting)"

definition payload_workspaces :: "jsval \<Rightarrow> jsval list" where
  "payload_workspaces pl =
     (if isArray (js_get pl ''workspaces'') then elements (js_get pl ''workspaces'') else [])"

definition refreshWorkspaces_resume :: "(string \<Rightarrow> jsval option) \<Rightarrow> world \<Rightarrow> fetch_outcome \<Rightarrow> world \<times> outcome" where
  "refreshWorkspaces_resume P w out =
     (case api_result P out of
        Inl e \<Rightarrow> (w, Thrown e)
      | Inr pl \<Rightarrow>
          (case renderWorkspaces (w\<lparr>workspaces := payload_workspaces pl\<rparr>) of
             (w2, Thrown e) \<Rightarrow> (w2, Thrown e)
           | (w2, _) \<Rightarrow>
               (if activeWorkspaceId w2 \<noteq> [] then refreshThreads_begin w2
                else (w2\<lparr>threads := []\<rparr>, Returned))))"



section \<open>Refresh scheduler and timers\<close>

text \<open>
  \<open>scheduleRefreshThreads(workspaceId)\<close>. \<open>window.setTimeout\<close> gives a fresh positive handle
  and queues the callback with its due time.
\<close>

definition scheduleRefreshThreads :: "world \<Rightarrow> string \<Rightarrow> world" where
  "scheduleRefreshThreads w workspaceId =
     (if workspaceId = [] \<or> workspaceId \<noteq> activeWorkspaceId w then w
      else if refreshThreadsTimer w \<noteq> None then w
      else let h = Suc (timerSeq w)
           in w\<lparr>refreshThreadsTimer := Some h, timerSeq := h,
                 timers := timers w @ [(h, clock w + 600)]\<rparr>)"

text \<open>The timer callback: up to the \<open>await\<close> inside \<open>refreshThreads\<close>, and from the answer on.\<close>

definition timer_callback_begin :: "world \<Rightarrow> world \<times> outcome" where
  "timer_callback_begin w = refreshThreads_begin (w\<lparr>refreshThreadsTimer := None\<rparr>)"

definition timer_callback_resume :: "(string \<Rightarrow> jsval option) \<Rightarrow> world \<Rightarrow> fetch_outcome \<Rightarrow> world \<times> outcome" where
  "timer_callback_resume P w out =
     (case refreshThreads_resume P w out of
        (w', Thrown e) \<Rightarrow> (appendEvent w' ''refresh/error'' (JStr (error_String e)), Returned)
      | r \<Rightarrow> r)"

text \<open>Time passes: the clock moves on by \<open>d\<close> and the callbacks that are due run, oldest first.\<close>

fun run_due :: "world \<Rightarrow> (nat \<times> nat) list \<Rightarrow> world" where
  "run_due w [] = w"
| "run_due w (t # ts) = run_due (fst (timer_callback_begin w)) ts"

definition advance :: "world \<Rightarrow> nat \<Rightarrow> world" where
  "advance w d =
     (let c = clock w + d
      in run_due (w\<lparr>clock := c, timers := filter (\<lambda>t. \<not> snd t \<le> c) (timers w)\<rparr>)
                 (filter (\<lambda>t. snd t \<le> c) (timers w)))"


section \<open>Push channel\<close>

text \<open>The message handler installed by \<open>connectWs()\<close>, on the text of one frame.\<close>

definition event_workspace_id :: "jsval \<Rightarrow> string" where
  "event_workspace_id params =
     js_String (js_or (js_or (js_get params ''workspace_id'') (js_get params ''workspaceId'')) (JStr []))"

definition event_thread_id :: "jsval \<Rightarrow> string" where
  "event_thread_id message =
     js_String (js_or (js_and (js_get message ''params'')
                              (js_or (js_get (js_get message ''params'') ''threadId'')
                                     (js_get (js_get message ''params'') ''thread_id'')))
                      (JStr []))"

definition app_server_event :: "world \<Rightarrow> jsval \<Rightarrow> world" where
  "app_server_event w pl =
     (let params = js_or (js_get pl ''params'') (JObj []);
          workspaceId = event_workspace_id params;
          message = js_or (js_get params ''message'') (JObj []);
          appMethod = js_String (js_or (js_get message ''method'') (JStr []));
          w1 = appendEvent w (''app:'' @ (if appMethod \<noteq> [] then appMethod else ''unknown''))
                 (JObj [(''workspaceId'', JStr workspaceId),
                        (''message'', js_or (js_get message ''params'') (JObj []))]);
          threadId = event_thread_id message
      in if threadId \<noteq> [] \<and> workspaceId = activeWorkspaceId w1
         then scheduleRefreshThreads
                (if activeThreadId w1 = []
                 then w1\<lparr>activeThreadId := threadId,
                         threadIdInput := map_option (\<lambda>_. threadId) (threadIdInput w1)\<rparr>
                 else w1)
                workspaceId
         else w1)"

definition ws_message :: "(string \<Rightarrow> jsval option) \<Rightarrow> world \<Rightarrow> string \<Rightarrow> world" where
  "ws_message P w data =
     (case P (if data \<noteq> [] then data else ''{}'') of
        None \<Rightarrow> appendEvent w ''ws/raw'' (JStr data)
      | Some pl \<Rightarrow>
          (if js_get pl ''type'' = JStr ''gateway/ready'' then appendEvent w ''gateway/ready'' pl
           else if js_get pl ''type'' = JStr ''gateway/error''
             then appendEvent w ''gateway/error'' (js_or (js_get pl ''message'') pl)
           else if js_get pl ''type'' = JStr ''gateway/disconnected''
             then appendEvent w ''gateway/disconnected'' (js_or (js_get pl ''message'') pl)
           else if js_get pl ''method'' = JStr ''app-server-event'' then app_server_event w pl
           else if js_get pl ''method'' = JStr ''terminal-output'' \<or> js_get pl ''method'' = JStr ''terminal-exit''
             then appendEvent w (js_String (js_get pl ''method'')) (js_or (js_get pl ''params'') (JObj []))
           else appendEvent w ''ws/event'' pl))"

section \<open>Operator actions\<close>

text \<open>\<open>String((el && el.value) || fallback || "")\<close> for an input element and a string.\<close>

definition field_or :: "string option \<Rightarrow> string \<Rightarrow> string" where
  "field_or el fallback = (case el of None \<Rightarrow> fallback | Some v \<Rightarrow> if v \<noteq> [] then v else fallback)"

definition resolveThreadId :: "world \<Rightarrow> string" where
  "resolveThreadId w = trim (field_or (threadIdInput w) (activeThreadId w))"

definition resumeThread_begin :: "world \<Rightarrow> world \<times> outcome" where
  "resumeThread_begin w =
     (if activeWorkspaceId w = [] then (w, Thrown (Error ''Select a workspace first''))
      else let threadId = resolveThreadId w
           in if threadId = [] then (w, Thrown (Error ''Select a thread first''))
              else (w\<lparr>net := net w @
                        [api_request w ''/api/threads/resume'' []
                           \<lparr>opt_method = Some ''POST'', opt_headers = None,
                            opt_body = Some (JObj [(''workspaceId'', JStr (activeWorkspaceId w)),
                                                   (''threadId'', JStr threadId)])\<rparr>]\<rparr>,
                    Awaiting))"

definition resumeThread_resume :: "(string \<Rightarrow> jsval option) \<Rightarrow> world \<Rightarrow> fetch_outcome \<Rightarrow> world \<times> outcome" where
  "resumeThread_resume P w out =
     (case api_result P out of
        Inl e \<Rightarrow> (w, Thrown e)
      | Inr pl \<Rightarrow> (appendEvent w ''thread/resume'' pl, Returned))"

definition sendMessage_begin :: "world \<Rightarrow> world \<times> outcome" where
  "sendMessage_begin w =
     (if activeWorkspaceId w = [] then (w, Thrown (Error ''Select a workspace first''))
      else let threadId = resolveThreadId w
           in if threadId = [] then (w, Thrown (Error ''Select a thread first''))
              else let txt = trim (field_or (messageInput w) [])
                   in if txt = [] then (w, Thrown (Error ''Enter a message first''))
                      else let accessMode = field_or (accessModeSelect w) ''current''
                           in (w\<lparr>net := net w @
                                    [api_request w ''/api/threads/message'' []
                                       \<lparr>opt_method = Some ''POST'', opt_headers = None,
                                        opt_body = Some (JObj [(''workspaceId'', JStr (activeWorkspaceId w)),
                                                               (''threadId'', JStr threadId),
                                                               (''text'', JStr txt),
                                                               (''accessMode'', JStr accessMode)])\<rparr>]\<rparr>,
                               Awaiting))"

definition sendMessage_resume :: "(string \<Rightarrow> jsval option) \<Rightarrow> world \<Rightarrow> fetch_outcome \<Rightarrow> world \<times> outcome" where
  "sendMessage_resume P w out =
     (case api_result P out of
        Inl e \<Rightarrow> (w, Thrown e)
      | Inr pl \<Rightarrow>
          (appendEvent (w\<lparr>messageInput := map_option (\<lambda>_. []) (messageInput w)\<rparr>) ''thread/message'' pl,
           Returned))"

section \<open>Credential store\<close>

text \<open>The click handlers of the save and clear buttons. The hint text is display only.\<close>

definition saveToken_click :: "world \<Rightarrow> world" where
  "saveToken_click w =
     (let t = trim (case tokenInput w of None \<Rightarrow> [] | Some v \<Rightarrow> v)
      in w\<lparr>token := t,
            localStorage := (if t \<noteq> [] then AList.update TOKEN_STORAGE_KEY t (localStorage w)
                             else AList.delete TOKEN_STORAGE_KEY (localStorage w))\<rparr>)"

definition clearToken_click :: "world \<Rightarrow> world" where
  "clearToken_click w =
     w\<lparr>token := [], tokenInput := map_option (\<lambda>_. []) (tokenInput w),
       localStorage := AList.delete TOKEN_STORAGE_KEY (localStorage w)\<rparr>"

section \<open>Initial state\<close>

text \<open>The \<open>state\<close> object as the script creates it, in a page that has every element, at time 0.\<close>

definition initial_world :: world where
  "initial_world =
     \<lparr>token = [], workspaces = [], activeWorkspaceId = [], threads = [], activeThreadId = [],
      ws_open = False, refreshThreadsTimer = None,
      tokenInput = Some [], workspaceSelect = True, threadIdInput = Some [],
      accessModeSelect = Some ''current'', messageInput = Some [], eventsLog = Some [],
      localStorage = [], clock = 0, timerSeq = 0, timers = [], net = []\<rparr>"

section \<open>Example states\<close>

definition full_log_world :: world where
  "full_log_world = initial_world\<lparr>eventsLog := Some (replicate 300 \<lparr>kind = ''old'', payload = JNull\<rparr>)\<rparr>"

text \<open>A decoder that knows two sample bodies, and a successful answer carrying a body.\<close>

definition sample_threads_body :: string where
  \<open>sample_threads_body = ''{"threads":[{"id":"t1","updatedAt":100},{"id":"t2"}]}''\<close>

definition sample_workspaces_body :: string where
  \<open>sample_workspaces_body = ''{"workspaces":[{"id":"w1"},{"id":"w2"}]}''\<close>

definition sample_parse :: "string \<Rightarrow> jsval option" where
  "sample_parse s =
     (if s = sample_threads_body
      then Some (JObj [(''threads'', JArr [JObj [(''id'', JStr ''t1''), (''updatedAt'', JNum 100)],
                                           JObj [(''id'', JStr ''t2'')]])])
      else if s = sample_workspaces_body
      then Some (JObj [(''workspaces'', JArr [JObj [(''id'', JStr ''w1'')], JObj [(''id'', JStr ''w2'')]])])
      else None)"

definition ok_response :: "string \<Rightarrow> fetch_outcome" where
  "ok_response s = Response \<lparr>ok = True, status = 200, statusText = ''OK'', body_text = s\<rparr>"

definition sample_threads :: "jsval list" where
  "sample_threads = [JObj [(''id'', JStr ''t1''), (''updatedAt'', JNum 100)], JObj [(''id'', JStr ''t2'')]]"

definition sample_workspaces :: "jsval list" where
  "sample_workspaces = [JObj [(''id'', JStr ''w1'')], JObj [(''id'', JStr ''w2'')]]"

text \<open>Workspace \<open>w1\<close> is active and the selected thread is one the server no longer lists.\<close>

definition stale_thread_world :: world where
  "stale_thread_world = initial_world\<lparr>activeWorkspaceId := ''w1'', activeThreadId := ''gone''\<rparr>"

text \<open>Workspace \<open>w1\<close> with thread \<open>t2\<close> selected.\<close>

definition selected_world :: world where
  "selected_world =
     initial_world\<lparr>workspaces := sample_workspaces, activeWorkspaceId := ''w1'',
                   threads := sample_threads, activeThreadId := ''t2'', threadIdInput := Some ''t2''\<rparr>"

text \<open>Workspace \<open>w1\<close> is active, no thread is selected, nothing is pending.\<close>

definition idle_world :: world where
  "idle_world = initial_world\<lparr>activeWorkspaceId := ''w1''\<rparr>"

text \<open>A push message about thread \<open>t1\<close> of workspace \<open>w1\<close>, and a decoder that knows it.\<close>

definition sample_event_body :: string where
  \<open>sample_event_body =
     ''{"method":"app-server-event","params":{"workspace_id":"w1","message":{"method":"turn-completed","params":{"threadId":"t1"}}}}''\<close>

definition sample_event :: jsval where
  "sample_event =
     JObj [(''method'', JStr ''app-server-event''),
           (''params'', JObj [(''workspace_id'', JStr ''w1''),
                              (''message'', JObj [(''method'', JStr ''turn-completed''),
                                                  (''params'', JObj [(''threadId'', JStr ''t1'')])])])]"

definition sample_event_parse :: "string \<Rightarrow> jsval option" where
  "sample_event_parse s = (if s = sample_event_body then Some sample_event else None)"

text \<open>An error body and a decoder that knows it.\<close>

definition sample_error_body :: string where
  \<open>sample_error_body = ''{"error":"invalid token"}''\<close>

definition sample_error_parse :: "string \<Rightarrow> jsval option" where
  "sample_error_parse s =
     (if s = sample_error_body then Some (JObj [(''error'', JStr ''invalid token'')]) else None)"

text \<open>Thread \<open>t2\<close> of workspace \<open>w1\<close> is selected and the message box holds only blanks.\<close>

definition blank_message_world :: world where
  "blank_message_world = selected_world\<lparr>messageInput := Some ''   ''\<rparr>"

text \<open>A token is stored and held, and the token box holds only blanks.\<close>

definition blank_token_world :: world where
  "blank_token_world =
     initial_world\<lparr>token := ''secret'', tokenInput := Some ''  '',
                   localStorage := [(TOKEN_STORAGE_KEY, ''secret'')]\<rparr>"

text \<open>A push message about thread \<open>t9\<close> that names no workspace, and a decoder that knows it.\<close>

definition sample_orphan_event_body :: string where
  \<open>sample_orphan_event_body =
     ''{"method":"app-server-event","params":{"message":{"method":"turn-started","params":{"threadId":"t9"}}}}''\<close>

definition sample_orphan_event :: jsval where
  "sample_orphan_event =
     JObj [(''method'', JStr ''app-server-event''),
           (''params'', JObj [(''message'', JObj [(''method'', JStr ''turn-started''),
                                                  (''params'', JObj [(''threadId'', JStr ''t9'')])])])]"

definition sample_orphan_parse :: "string \<Rightarrow> jsval option" where
  "sample_orphan_parse s = (if s = sample_orphan_event_body then Some sample_orphan_event else None)"

section \<open>Event log: capacity\<close>

lemma evict_take: "evict ls = take MAX_EVENT_LINES ls"
proof (induction ls rule: evict.induct)
  case (1 ls)
  show ?case
  proof (cases "length ls > MAX_EVENT_LINES")
    case True
    then have "evict ls = evict (butlast ls)" by (simp add: evict.simps)
    also have "\<dots> = take MAX_EVENT_LINES (butlast ls)" using 1 True by simp
    also have "\<dots> = take MAX_EVENT_LINES ls"
      using True by (simp add: take_butlast)
    finally show ?thesis .
  next
    case False
    then show ?thesis by (simp add: evict.simps)
  qed
qed

lemma appendEvent_log:
  "eventsLog w = Some ls \<Longrightarrow>
   eventsLog (appendEvent w k p) = Some (take MAX_EVENT_LINES (mk_line (k, p) # ls))"
  by (simp add: appendEvent_def evict_take mk_line_def)

lemma appendEvents_log:
  "eventsLog w = Some ls \<Longrightarrow>
   eventsLog (appendEvents w es) =
     Some (if es = [] then ls else take MAX_EVENT_LINES (rev (map mk_line es) @ ls))"
proof (induction es arbitrary: w ls)
  case Nil
  then show ?case by simp
next
  case (Cons e es)
  obtain k p where e: "e = (k, p)" by (cases e)
  let ?w1 = "appendEvent w k p"
  have l1: "eventsLog ?w1 = Some (take MAX_EVENT_LINES (mk_line e # ls))"
    using Cons.prems e by (simp add: appendEvent_log)
  show ?case
  proof (cases es)
    case Nil
    then show ?thesis using l1 e by simp
  next
    case (Cons e' es')
    then have ne: "es \<noteq> []" by simp
    have "eventsLog (appendEvents ?w1 es) =
        Some (take MAX_EVENT_LINES (rev (map mk_line es) @ take MAX_EVENT_LINES (mk_line e # ls)))"
      using Cons.IH [OF l1] ne by simp
    moreover have "take MAX_EVENT_LINES (rev (map mk_line es) @ take MAX_EVENT_LINES (mk_line e # ls))
        = take MAX_EVENT_LINES (rev (map mk_line es) @ mk_line e # ls)"
      by (simp add: min_def)
    ultimately show ?thesis using e by simp
  qed
qed

text \<open>
  Claim C9. The event log never holds more than 300 entries, however many events are
  appended: after any sequence of \<open>appendEvent\<close> calls on a log that exists, the log is the
  300 newest entries (newest first) of the appended events followed by the old log, so the
  oldest entries are the ones evicted. The bound holds as soon as one event has been
  appended, or when the log was within the bound to begin with.
\<close>

theorem event_log_capacity:
  assumes "eventsLog w = Some ls"
    and "es \<noteq> [] \<or> length ls \<le> 300"
  shows "eventsLog (appendEvents w es) = Some (take 300 (rev (map mk_line es) @ ls))
         \<and> length (take 300 (rev (map mk_line es) @ ls)) \<le> 300
         \<and> (\<forall>k p. \<exists>ls'. eventsLog (appendEvent w k p) = Some ls' \<and> length ls' \<le> 300
                      \<and> ls' = take 300 (mk_line (k, p) # ls))"
proof -
  have "eventsLog (appendEvents w es) = Some (take 300 (rev (map mk_line es) @ ls))"
  proof (cases "es = []")
    case True
    then show ?thesis using assms by simp
  next
    case False
    then show ?thesis using appendEvents_log [OF assms(1), of es] by (simp add: MAX_EVENT_LINES_def)
  qed
  moreover have "\<forall>k p. \<exists>ls'. eventsLog (appendEvent w k p) = Some ls' \<and> length ls' \<le> 300
                      \<and> ls' = take 300 (mk_line (k, p) # ls)"
    using appendEvent_log [OF assms(1)] by (simp add: MAX_EVENT_LINES_def)
  ultimately show ?thesis by simp
qed

theorem event_log_capacity_witness:
  "eventsLog full_log_world = Some (replicate 300 \<lparr>kind = ''old'', payload = JNull\<rparr>)
   \<and> eventsLog (appendEvents full_log_world [(''ws/open'', JStr ''u''), (''ws/event'', JNull)])
       = Some (mk_line (''ws/event'', JNull) # mk_line (''ws/open'', JStr ''u'')
               # replicate 298 \<lparr>kind = ''old'', payload = JNull\<rparr>)"
proof -
  have h: "eventsLog full_log_world = Some (replicate 300 \<lparr>kind = ''old'', payload = JNull\<rparr>)"
    by (simp add: full_log_world_def initial_world_def)
  have t: "take 298 (replicate 300 \<lparr>kind = ''old'', payload = JNull\<rparr>)
             = replicate 298 \<lparr>kind = ''old'', payload = JNull\<rparr>"
    by simp
  show ?thesis
    using h event_log_capacity [OF h, of "[(''ws/open'', JStr ''u''), (''ws/event'', JNull)]"] t
    by simp
qed

section \<open>Thread refresh\<close>

lemma threads_request_explicit:
  "threads_request w =
     \<lparr>path = ''/api/threads'',
      query = [(''workspaceId'', activeWorkspaceId w), (''limit'', ''40''), (''sortKey'', ''updated_at'')],
      http_method = None,
      headers = (if token w \<noteq> [] then [(''Authorization'', ''Bearer '' @ token w)] else []),
      body = None\<rparr>"
  by (simp add: threads_request_def api_request_def authHeaders_def no_options_def Let_def)

lemma list_ex_ids: "list_ex (\<lambda>t. extractThreadId t = a) ths \<longleftrightarrow> a \<in> set (map extractThreadId ths)"
  by (auto simp: list_ex_iff)

lemma reconcileThread_cases:
  "reconcileThread a ths =
     (if a \<noteq> [] \<and> a \<in> set (map extractThreadId ths) then a
      else case ths of [] \<Rightarrow> [] | t # _ \<Rightarrow> extractThreadId t)"
  by (auto simp: reconcileThread_def list_ex_ids Let_def split: list.splits)

lemma reconcileThread_member:
  "reconcileThread a ths \<noteq> [] \<Longrightarrow> reconcileThread a ths \<in> set (map extractThreadId ths)"
  by (auto simp: reconcileThread_cases split: if_splits list.splits)

lemma reconcileThread_idem:
  "reconcileThread (reconcileThread a ths) ths = reconcileThread a ths"
  by (auto simp: reconcileThread_cases split: if_splits list.splits)


lemma refreshThreads_fetched:
  assumes "activeWorkspaceId w \<noteq> []" and "api_result P out = Inr pl"
  shows "refreshThreads P w out =
     (w\<lparr>net := net w @ [threads_request w], threads := extractThreadList pl,
        activeThreadId := reconcileThread (activeThreadId w) (extractThreadList pl),
        threadIdInput := map_option (\<lambda>_. reconcileThread (activeThreadId w) (extractThreadList pl))
                           (threadIdInput w)\<rparr>,
      Returned)"
  using assms by (simp add: refreshThreads_def refreshThreads_begin_def refreshThreads_resume_def Let_def)

lemma sample_threads_result:
  "api_result sample_parse (ok_response sample_threads_body) = Inr (JObj [(''threads'', JArr sample_threads)])"
  by (simp add: api_result_def ok_response_def decode_body_def sample_parse_def
        sample_threads_body_def sample_threads_def)

lemma sample_threads_list:
  "extractThreadList (JObj [(''threads'', JArr sample_threads)]) = sample_threads"
  by (simp add: extractThreadList_def)

lemma sample_thread_ids: "map extractThreadId sample_threads = [''t1'', ''t2'']"
  by (simp add: sample_threads_def extractThreadId_def js_or_def)

lemma sample_first_thread:
  "(case sample_threads of [] \<Rightarrow> [] | t # _ \<Rightarrow> extractThreadId t) = ''t1''"
  by (simp add: sample_threads_def extractThreadId_def js_or_def)

text \<open>
  Claim C1. When \<open>refreshThreads()\<close> fetches a thread collection for the active workspace
  (there is an active workspace and the request succeeds), the collection is stored and the
  active thread id is reconciled with it: a previously active id (a non-empty one; the empty
  id stands for no selection) that is the id of some fetched thread is kept; an id that is
  not among the fetched ids, or no selection, gives the id of the first thread, or the empty
  id when the collection is empty. So a non-empty active thread id is afterwards always the
  id of a stored thread. A thread's id is what \<open>extractThreadId\<close> reads from it.
\<close>

theorem refreshThreads_reconciles_active_thread:
  assumes "activeWorkspaceId w \<noteq> []" and "api_result P out = Inr pl"
  shows "snd (refreshThreads P w out) = Returned
    \<and> threads (fst (refreshThreads P w out)) = extractThreadList pl
    \<and> (activeThreadId w \<noteq> [] \<and> activeThreadId w \<in> set (map extractThreadId (extractThreadList pl))
         \<longrightarrow> activeThreadId (fst (refreshThreads P w out)) = activeThreadId w)
    \<and> (activeThreadId w = [] \<or> activeThreadId w \<notin> set (map extractThreadId (extractThreadList pl))
         \<longrightarrow> activeThreadId (fst (refreshThreads P w out))
               = (case extractThreadList pl of [] \<Rightarrow> [] | t # _ \<Rightarrow> extractThreadId t))
    \<and> (activeThreadId (fst (refreshThreads P w out)) \<noteq> []
         \<longrightarrow> activeThreadId (fst (refreshThreads P w out))
               \<in> set (map extractThreadId (threads (fst (refreshThreads P w out)))))"
proof -
  let ?ths = "extractThreadList pl"
  have a: "activeThreadId (fst (refreshThreads P w out)) = reconcileThread (activeThreadId w) ?ths"
    and t: "threads (fst (refreshThreads P w out)) = ?ths"
    and r: "snd (refreshThreads P w out) = Returned"
    using refreshThreads_fetched [OF assms] by simp_all
  have m: "reconcileThread (activeThreadId w) ?ths \<noteq> []
      \<longrightarrow> reconcileThread (activeThreadId w) ?ths \<in> set (map extractThreadId ?ths)"
    using reconcileThread_member by blast
  show ?thesis
    unfolding a t r using m by (simp add: reconcileThread_cases)
qed

theorem refreshThreads_reconciles_active_thread_witness:
  "activeWorkspaceId stale_thread_world \<noteq> []
   \<and> activeThreadId stale_thread_world = ''gone''
   \<and> threads (fst (refreshThreads sample_parse stale_thread_world (ok_response sample_threads_body)))
       = sample_threads
   \<and> activeThreadId (fst (refreshThreads sample_parse stale_thread_world (ok_response sample_threads_body)))
       = ''t1''"
proof -
  have h: "activeWorkspaceId stale_thread_world \<noteq> []"
    by (simp add: stale_thread_world_def initial_world_def)
  have g: "activeThreadId stale_thread_world = ''gone''"
    by (simp add: stale_thread_world_def initial_world_def)
  have i: "''gone'' \<notin> set (map extractThreadId sample_threads)"
    by (simp add: sample_thread_ids)
  show ?thesis
    using refreshThreads_reconciles_active_thread [OF h sample_threads_result, unfolded sample_threads_list]
      h g i sample_first_thread
    by simp
qed

lemma refreshThreads_active_cases:
  "activeThreadId (fst (refreshThreads P w out)) =
     (if activeWorkspaceId w = [] then activeThreadId w
      else case api_result P out of Inl e \<Rightarrow> activeThreadId w
           | Inr pl \<Rightarrow> reconcileThread (activeThreadId w) (extractThreadList pl))"
  by (simp add: refreshThreads_def refreshThreads_begin_def refreshThreads_resume_def Let_def
           split: sum.splits)

lemma refreshThreads_workspace:
  "activeWorkspaceId (fst (refreshThreads P w out)) = activeWorkspaceId w"
  by (simp add: refreshThreads_def refreshThreads_begin_def refreshThreads_resume_def Let_def
           split: sum.splits)

lemma refreshThreads_threads_cases:
  "threads (fst (refreshThreads P w out)) =
     (if activeWorkspaceId w = [] then []
      else case api_result P out of Inl e \<Rightarrow> threads w
           | Inr pl \<Rightarrow> extractThreadList pl)"
  by (simp add: refreshThreads_def refreshThreads_begin_def refreshThreads_resume_def Let_def
           split: sum.splits)

text \<open>
  Claim C8. \<open>refreshThreads()\<close> is idempotent on the selection: run twice in a row with the same
  answer from the server and nothing in between, the second run leaves the active thread id
  (and the stored thread collection) as the first run left them. This holds whatever the
  answer is, and also when no workspace is active.
\<close>

theorem refreshThreads_idempotent:
  "activeThreadId (fst (refreshThreads P (fst (refreshThreads P w out)) out))
     = activeThreadId (fst (refreshThreads P w out))
   \<and> threads (fst (refreshThreads P (fst (refreshThreads P w out)) out))
     = threads (fst (refreshThreads P w out))"
  by (simp add: refreshThreads_active_cases refreshThreads_workspace refreshThreads_threads_cases
        reconcileThread_idem split: sum.splits)

theorem refreshThreads_idempotent_witness:
  "activeThreadId (fst (refreshThreads sample_parse stale_thread_world (ok_response sample_threads_body)))
     = ''t1''
   \<and> activeThreadId (fst (refreshThreads sample_parse
        (fst (refreshThreads sample_parse stale_thread_world (ok_response sample_threads_body)))
        (ok_response sample_threads_body))) = ''t1''"
proof -
  have h: "activeWorkspaceId stale_thread_world \<noteq> []"
    by (simp add: stale_thread_world_def initial_world_def)
  have a: "activeThreadId (fst (refreshThreads sample_parse stale_thread_world (ok_response sample_threads_body)))
     = ''t1''"
    using refreshThreads_fetched [OF h sample_threads_result, unfolded sample_threads_list]
    by (simp add: reconcileThread_cases sample_thread_ids stale_thread_world_def initial_world_def
          sample_first_thread)
  show ?thesis
    using refreshThreads_idempotent [of sample_parse stale_thread_world "ok_response sample_threads_body"] a
    by simp
qed

section \<open>Workspace refresh\<close>

lemma list_ex_workspace_ids:
  "list_ex (\<lambda>x. js_String (js_get x ''id'') = a) xs
     \<longleftrightarrow> a \<in> set (map (\<lambda>x. js_String (js_get x ''id'')) xs)"
  by (induction xs) auto

lemma renderWorkspaces_empty:
  "workspaceSelect w \<Longrightarrow> workspaces w = [] \<Longrightarrow>
   renderWorkspaces w = (w\<lparr>activeWorkspaceId := []\<rparr>, Returned)"
  by (simp add: renderWorkspaces_def)

lemma renderWorkspaces_nonempty:
  "workspaceSelect w \<Longrightarrow> \<not> list_ex nullish (workspaces w) \<Longrightarrow> workspaces w = first # rest \<Longrightarrow>
   renderWorkspaces w =
     (w\<lparr>activeWorkspaceId :=
          (if activeWorkspaceId w \<in> set (map (\<lambda>x. js_String (js_get x ''id'')) (workspaces w))
           then activeWorkspaceId w
           else js_String (js_or (js_get first ''id'') (JStr [])))\<rparr>, Returned)"
  unfolding renderWorkspaces_def Let_def list_ex_workspace_ids by simp

lemma sample_workspaces_result:
  "api_result sample_parse (ok_response sample_workspaces_body)
     = Inr (JObj [(''workspaces'', JArr sample_workspaces)])"
  by (simp add: api_result_def ok_response_def decode_body_def sample_parse_def
        sample_threads_body_def sample_workspaces_body_def sample_workspaces_def)

lemma sample_workspaces_list:
  "payload_workspaces (JObj [(''workspaces'', JArr sample_workspaces)]) = sample_workspaces"
  by (simp add: payload_workspaces_def)

text \<open>
  Claim C2. When \<open>refreshWorkspaces()\<close> receives a workspace collection (the request
  succeeds, the page has the workspace select, and no entry of the collection is null), the
  collection replaces the stored one; the active workspace id is then empty for an empty
  collection, the prior id when some entry has it as its id, and otherwise the id of the
  first entry. When no active workspace remains the thread collection is cleared and no
  request is sent; when one remains, the thread request for it is sent. An entry's id is
  compared as \<open>String(w.id)\<close> and the first entry's id is taken as \<open>String(w.id || "")\<close>.
\<close>

theorem refreshWorkspaces_reconciles_active_workspace:
  assumes "api_result P out = Inr pl"
    and "workspaceSelect w"
    and "\<not> list_ex nullish (payload_workspaces pl)"
  shows "workspaces (fst (refreshWorkspaces_resume P w out)) = payload_workspaces pl
    \<and> activeWorkspaceId (fst (refreshWorkspaces_resume P w out))
        = (case payload_workspaces pl of
             [] \<Rightarrow> []
           | first # _ \<Rightarrow>
               if activeWorkspaceId w \<in> set (map (\<lambda>x. js_String (js_get x ''id'')) (payload_workspaces pl))
               then activeWorkspaceId w
               else js_String (js_or (js_get first ''id'') (JStr [])))
    \<and> (activeWorkspaceId (fst (refreshWorkspaces_resume P w out)) = []
         \<longrightarrow> threads (fst (refreshWorkspaces_resume P w out)) = []
             \<and> net (fst (refreshWorkspaces_resume P w out)) = net w
             \<and> snd (refreshWorkspaces_resume P w out) = Returned)
    \<and> (activeWorkspaceId (fst (refreshWorkspaces_resume P w out)) \<noteq> []
         \<longrightarrow> net (fst (refreshWorkspaces_resume P w out))
               = net w @ [threads_request (fst (refreshWorkspaces_resume P w out))]
             \<and> snd (refreshWorkspaces_resume P w out) = Awaiting)"
proof (cases "payload_workspaces pl")
  case Nil
  have "renderWorkspaces (w\<lparr>workspaces := payload_workspaces pl\<rparr>)
          = (w\<lparr>workspaces := payload_workspaces pl, activeWorkspaceId := []\<rparr>, Returned)"
    using renderWorkspaces_empty [of "w\<lparr>workspaces := payload_workspaces pl\<rparr>"] assms(2) Nil by simp
  then show ?thesis
    using assms(1) Nil by (simp add: refreshWorkspaces_resume_def)
next
  case (Cons first rest)
  define a where "a = (if activeWorkspaceId w \<in> set (map (\<lambda>x. js_String (js_get x ''id'')) (payload_workspaces pl))
           then activeWorkspaceId w
           else js_String (js_or (js_get first ''id'') (JStr [])))"
  have r: "renderWorkspaces (w\<lparr>workspaces := payload_workspaces pl\<rparr>)
          = (w\<lparr>workspaces := payload_workspaces pl, activeWorkspaceId := a\<rparr>, Returned)"
    using renderWorkspaces_nonempty [of "w\<lparr>workspaces := payload_workspaces pl\<rparr>" first rest]
      assms(2,3) Cons unfolding a_def by simp
  have tr: "threads_request (w\<lparr>workspaces := payload_workspaces pl, activeWorkspaceId := a,
               net := net w @ [threads_request (w\<lparr>workspaces := payload_workspaces pl, activeWorkspaceId := a\<rparr>)]\<rparr>)
            = threads_request (w\<lparr>workspaces := payload_workspaces pl, activeWorkspaceId := a\<rparr>)"
    by (simp add: threads_request_explicit)
  have R: "refreshWorkspaces_resume P w out =
      (if a \<noteq> [] then refreshThreads_begin (w\<lparr>workspaces := payload_workspaces pl, activeWorkspaceId := a\<rparr>)
       else (w\<lparr>workspaces := payload_workspaces pl, activeWorkspaceId := a, threads := []\<rparr>, Returned))"
    using assms(1) by (simp add: refreshWorkspaces_resume_def r)
  have c: "(case payload_workspaces pl of
             [] \<Rightarrow> []
           | first # _ \<Rightarrow>
               if activeWorkspaceId w \<in> set (map (\<lambda>x. js_String (js_get x ''id'')) (payload_workspaces pl))
               then activeWorkspaceId w
               else js_String (js_or (js_get first ''id'') (JStr []))) = a"
    unfolding a_def using Cons by (simp only: list.case)
  have A: "activeWorkspaceId (fst (refreshWorkspaces_resume P w out)) = a"
    and W: "workspaces (fst (refreshWorkspaces_resume P w out)) = payload_workspaces pl"
    unfolding R by (simp_all add: refreshThreads_begin_def)
  have E: "a = [] \<longrightarrow> threads (fst (refreshWorkspaces_resume P w out)) = []
             \<and> net (fst (refreshWorkspaces_resume P w out)) = net w
             \<and> snd (refreshWorkspaces_resume P w out) = Returned"
    unfolding R by simp
  have N: "a \<noteq> [] \<longrightarrow> net (fst (refreshWorkspaces_resume P w out))
               = net w @ [threads_request (fst (refreshWorkspaces_resume P w out))]
             \<and> snd (refreshWorkspaces_resume P w out) = Awaiting"
    unfolding R using tr by (simp add: refreshThreads_begin_def)
  show ?thesis
    unfolding c A using W E N by blast
qed

theorem refreshWorkspaces_reconciles_active_workspace_witness:
  "workspaceSelect initial_world
   \<and> \<not> list_ex nullish sample_workspaces
   \<and> workspaces (fst (refreshWorkspaces_resume sample_parse initial_world (ok_response sample_workspaces_body)))
       = sample_workspaces
   \<and> activeWorkspaceId (fst (refreshWorkspaces_resume sample_parse initial_world
        (ok_response sample_workspaces_body))) = ''w1''
   \<and> snd (refreshWorkspaces_resume sample_parse initial_world (ok_response sample_workspaces_body))
       = Awaiting"
proof -
  have s: "workspaceSelect initial_world" by (simp add: initial_world_def)
  have n: "\<not> list_ex nullish (payload_workspaces (JObj [(''workspaces'', JArr sample_workspaces)]))"
    unfolding sample_workspaces_list by (simp add: sample_workspaces_def)
  have p: "activeWorkspaceId initial_world = []" by (simp add: initial_world_def)
  show ?thesis
    using refreshWorkspaces_reconciles_active_workspace
            [OF sample_workspaces_result s n, unfolded sample_workspaces_list]
      s n [unfolded sample_workspaces_list] p
    by (simp add: sample_workspaces_def js_or_def)
qed

section \<open>Switching the workspace\<close>




section \<open>Refresh scheduler\<close>

lemma timer_callback_begin_explicit:
  "timer_callback_begin w =
     (if activeWorkspaceId w = [] then (w\<lparr>refreshThreadsTimer := None, threads := []\<rparr>, Returned)
      else (w\<lparr>refreshThreadsTimer := None, net := net w @ [threads_request w]\<rparr>, Awaiting))"
  by (simp add: timer_callback_begin_def refreshThreads_begin_def threads_request_explicit)



lemma run_due_fields:
  "activeWorkspaceId (run_due w ts) = activeWorkspaceId w
   \<and> token (run_due w ts) = token w
   \<and> timers (run_due w ts) = timers w
   \<and> clock (run_due w ts) = clock w
   \<and> refreshThreadsTimer (run_due w ts) = (if ts = [] then refreshThreadsTimer w else None)
   \<and> (\<exists>n. n \<le> length ts \<and> net (run_due w ts) = net w @ replicate n (threads_request w))"
proof (induction ts arbitrary: w)
  case Nil
  then show ?case by simp
next
  case (Cons t ts)
  let ?w1 = "fst (timer_callback_begin w)"
  have f: "activeWorkspaceId ?w1 = activeWorkspaceId w" "token ?w1 = token w"
    "timers ?w1 = timers w" "clock ?w1 = clock w" "refreshThreadsTimer ?w1 = None"
    by (simp_all add: timer_callback_begin_explicit)
  have tr: "threads_request ?w1 = threads_request w"
    using f by (simp add: threads_request_explicit)
  obtain m where m: "m \<le> 1" "net ?w1 = net w @ replicate m (threads_request w)"
  proof (cases "activeWorkspaceId w = []")
    case True
    then have "net ?w1 = net w @ replicate 0 (threads_request w)"
      by (simp add: timer_callback_begin_explicit)
    then show ?thesis using that [of 0] by simp
  next
    case False
    then have "net ?w1 = net w @ replicate 1 (threads_request w)"
      by (simp add: timer_callback_begin_explicit)
    then show ?thesis using that [of 1] by simp
  qed
  obtain n where n: "n \<le> length ts" "net (run_due ?w1 ts) = net ?w1 @ replicate n (threads_request ?w1)"
    using Cons.IH [of ?w1] by blast
  have "net (run_due w (t # ts)) = net w @ replicate (m + n) (threads_request w)"
    using m n tr by (simp add: replicate_add)
  moreover have "m + n \<le> length (t # ts)" using m n by simp
  ultimately have "\<exists>k. k \<le> length (t # ts) \<and> net (run_due w (t # ts)) = net w @ replicate k (threads_request w)"
    by blast
  then show ?case using Cons.IH [of ?w1] f by simp
qed


lemma advance_active: "activeWorkspaceId (advance w d) = activeWorkspaceId w"
  using run_due_fields [of "w\<lparr>clock := clock w + d, timers := filter (\<lambda>t. \<not> snd t \<le> clock w + d) (timers w)\<rparr>"
      "filter (\<lambda>t. snd t \<le> clock w + d) (timers w)"]
  by (simp add: advance_def Let_def)






section \<open>Push events\<close>

lemma appendEvent_fields:
  "activeWorkspaceId (appendEvent w k p) = activeWorkspaceId w"
  "activeThreadId (appendEvent w k p) = activeThreadId w"
  "threadIdInput (appendEvent w k p) = threadIdInput w"
  "refreshThreadsTimer (appendEvent w k p) = refreshThreadsTimer w"
  "timers (appendEvent w k p) = timers w"
  "timerSeq (appendEvent w k p) = timerSeq w"
  "clock (appendEvent w k p) = clock w"
  "net (appendEvent w k p) = net w"
  by (simp_all add: appendEvent_def split: option.splits)

lemma ws_message_app_server_event:
  assumes "P (if data \<noteq> [] then data else ''{}'') = Some pl"
    and "js_get pl ''type'' \<notin> {JStr ''gateway/ready'', JStr ''gateway/error'', JStr ''gateway/disconnected''}"
    and "js_get pl ''method'' = JStr ''app-server-event''"
  shows "ws_message P w data = app_server_event w pl"
  using assms by (simp add: ws_message_def)

text \<open>
  Claim C5, as stated, fails: in the initial state no workspace is active, and a push message
  that carries thread id \<open>t9\<close> and no workspace id has the empty workspace id, which equals
  the active one; the thread id is adopted, but no refresh is scheduled, because the
  scheduler drops an empty workspace id.
\<close>

theorem push_event_without_workspace_counterexample:
  "activeWorkspaceId initial_world = []
   \<and> event_workspace_id (js_or (js_get sample_orphan_event ''params'') (JObj [])) = []
   \<and> event_thread_id (js_or (js_get (js_or (js_get sample_orphan_event ''params'') (JObj [])) ''message'')
                              (JObj [])) = ''t9''
   \<and> activeThreadId (ws_message sample_orphan_parse initial_world sample_orphan_event_body) = ''t9''
   \<and> refreshThreadsTimer (ws_message sample_orphan_parse initial_world sample_orphan_event_body) = None
   \<and> timers (ws_message sample_orphan_parse initial_world sample_orphan_event_body) = []"
  by (simp add: ws_message_def app_server_event_def sample_orphan_parse_def sample_orphan_event_body_def
        sample_orphan_event_def event_workspace_id_def event_thread_id_def js_or_def js_and_def
        appendEvent_def scheduleRefreshThreads_def initial_world_def Let_def)

text \<open>
  Claim C5, amended. For a push message that decodes to an envelope with method
  \<open>app-server-event\<close> (and none of the gateway types), with the workspace id and thread id the
  handler reads from its params: when the thread id is non-empty and the workspace id equals
  the active one, the thread id becomes the active one only if none was active (an active id
  is never overwritten), and, when the workspace id is non-empty, a refresh is pending
  afterwards (newly armed when none was); when the workspace id is empty, the pending flag
  and the timers are unchanged, so no refresh is scheduled; when the workspace id differs
  from the active one, the active thread id, the thread input, the pending flag and the
  timers are unchanged. The handler sends no request itself and never changes the active
  workspace.
\<close>

theorem push_event_adopts_thread_and_schedules:
  assumes "P (if data \<noteq> [] then data else ''{}'') = Some pl"
    and "js_get pl ''type'' \<notin> {JStr ''gateway/ready'', JStr ''gateway/error'', JStr ''gateway/disconnected''}"
    and "js_get pl ''method'' = JStr ''app-server-event''"
    and "params = js_or (js_get pl ''params'') (JObj [])"
    and "workspaceId = event_workspace_id params"
    and "threadId = event_thread_id (js_or (js_get params ''message'') (JObj []))"
  shows "(threadId \<noteq> [] \<and> workspaceId = activeWorkspaceId w \<longrightarrow>
            activeThreadId (ws_message P w data)
              = (if activeThreadId w = [] then threadId else activeThreadId w)
          \<and> (workspaceId \<noteq> [] \<longrightarrow>
                refreshThreadsTimer (ws_message P w data) \<noteq> None
              \<and> timers (ws_message P w data)
                  = (if refreshThreadsTimer w = None
                     then timers w @ [(Suc (timerSeq w), clock w + 600)] else timers w)))
       \<and> (workspaceId \<noteq> activeWorkspaceId w \<longrightarrow>
            activeThreadId (ws_message P w data) = activeThreadId w
          \<and> threadIdInput (ws_message P w data) = threadIdInput w
          \<and> refreshThreadsTimer (ws_message P w data) = refreshThreadsTimer w
          \<and> timers (ws_message P w data) = timers w)
       \<and> (workspaceId = [] \<longrightarrow>
            refreshThreadsTimer (ws_message P w data) = refreshThreadsTimer w
          \<and> timers (ws_message P w data) = timers w)
       \<and> net (ws_message P w data) = net w
       \<and> activeWorkspaceId (ws_message P w data) = activeWorkspaceId w"
proof -
  define msg where "msg = js_or (js_get params ''message'') (JObj [])"
  define appMethod where "appMethod = js_String (js_or (js_get msg ''method'') (JStr []))"
  define w1 where "w1 = appendEvent w (''app:'' @ (if appMethod \<noteq> [] then appMethod else ''unknown''))
                 (JObj [(''workspaceId'', JStr workspaceId),
                        (''message'', js_or (js_get msg ''params'') (JObj []))])"
  define w2 where "w2 = (if activeThreadId w1 = []
                 then w1\<lparr>activeThreadId := threadId,
                         threadIdInput := map_option (\<lambda>_. threadId) (threadIdInput w1)\<rparr>
                 else w1)"
  have m: "ws_message P w data =
      (if threadId \<noteq> [] \<and> workspaceId = activeWorkspaceId w1
       then scheduleRefreshThreads w2 workspaceId else w1)"
    unfolding ws_message_app_server_event [of P data pl w, OF assms(1,2,3)] app_server_event_def Let_def
      assms(4)[symmetric] assms(5)[symmetric] msg_def[symmetric] appMethod_def[symmetric]
      assms(6)[unfolded msg_def[symmetric], symmetric] w1_def[symmetric] w2_def[symmetric]
    by (rule refl)
  have f1: "activeWorkspaceId w1 = activeWorkspaceId w" "activeThreadId w1 = activeThreadId w"
    "threadIdInput w1 = threadIdInput w" "refreshThreadsTimer w1 = refreshThreadsTimer w"
    "timers w1 = timers w" "timerSeq w1 = timerSeq w" "clock w1 = clock w" "net w1 = net w"
    unfolding w1_def by (simp_all add: appendEvent_fields)
  have f2: "activeWorkspaceId w2 = activeWorkspaceId w"
    "activeThreadId w2 = (if activeThreadId w = [] then threadId else activeThreadId w)"
    "refreshThreadsTimer w2 = refreshThreadsTimer w"
    "timers w2 = timers w" "timerSeq w2 = timerSeq w" "clock w2 = clock w" "net w2 = net w"
    unfolding w2_def using f1 by simp_all
  have s: "activeWorkspaceId (scheduleRefreshThreads w2 workspaceId) = activeWorkspaceId w"
    "activeThreadId (scheduleRefreshThreads w2 workspaceId) = activeThreadId w2"
    "net (scheduleRefreshThreads w2 workspaceId) = net w"
    using f2 by (simp_all add: scheduleRefreshThreads_def Let_def)
  have t: "workspaceId \<noteq> [] \<and> workspaceId = activeWorkspaceId w \<longrightarrow>
      refreshThreadsTimer (scheduleRefreshThreads w2 workspaceId) \<noteq> None
      \<and> timers (scheduleRefreshThreads w2 workspaceId)
          = (if refreshThreadsTimer w = None
             then timers w @ [(Suc (timerSeq w), clock w + 600)] else timers w)"
    using f2 by (auto simp: scheduleRefreshThreads_def Let_def)
  have A: "ws_message P w data = scheduleRefreshThreads w2 workspaceId"
    if "threadId \<noteq> [] \<and> workspaceId = activeWorkspaceId w"
    using that f1(1) by (simp add: m)
  have B: "ws_message P w data = w1"
    if "\<not> (threadId \<noteq> [] \<and> workspaceId = activeWorkspaceId w)"
    using that f1(1) by (auto simp: m)
  have g1: "threadId \<noteq> [] \<and> workspaceId = activeWorkspaceId w \<longrightarrow>
            activeThreadId (ws_message P w data)
              = (if activeThreadId w = [] then threadId else activeThreadId w)
          \<and> (workspaceId \<noteq> [] \<longrightarrow>
                refreshThreadsTimer (ws_message P w data) \<noteq> None
              \<and> timers (ws_message P w data)
                  = (if refreshThreadsTimer w = None
                     then timers w @ [(Suc (timerSeq w), clock w + 600)] else timers w))"
  proof
    assume c: "threadId \<noteq> [] \<and> workspaceId = activeWorkspaceId w"
    show "activeThreadId (ws_message P w data)
              = (if activeThreadId w = [] then threadId else activeThreadId w)
          \<and> (workspaceId \<noteq> [] \<longrightarrow>
                refreshThreadsTimer (ws_message P w data) \<noteq> None
              \<and> timers (ws_message P w data)
                  = (if refreshThreadsTimer w = None
                     then timers w @ [(Suc (timerSeq w), clock w + 600)] else timers w))"
      unfolding A [OF c] s(2) f2(2) using t c by blast
  qed
  have g3: "workspaceId \<noteq> activeWorkspaceId w \<longrightarrow>
            activeThreadId (ws_message P w data) = activeThreadId w
          \<and> threadIdInput (ws_message P w data) = threadIdInput w
          \<and> refreshThreadsTimer (ws_message P w data) = refreshThreadsTimer w
          \<and> timers (ws_message P w data) = timers w"
  proof
    assume c: "workspaceId \<noteq> activeWorkspaceId w"
    then have "ws_message P w data = w1" using B by blast
    then show "activeThreadId (ws_message P w data) = activeThreadId w
          \<and> threadIdInput (ws_message P w data) = threadIdInput w
          \<and> refreshThreadsTimer (ws_message P w data) = refreshThreadsTimer w
          \<and> timers (ws_message P w data) = timers w"
      using f1 by simp
  qed
  have g4: "net (ws_message P w data) = net w"
    using A B s(3) f1(8) by (cases "threadId \<noteq> [] \<and> workspaceId = activeWorkspaceId w") simp_all
  have g5: "activeWorkspaceId (ws_message P w data) = activeWorkspaceId w"
    using A B s(1) f1(1) by (cases "threadId \<noteq> [] \<and> workspaceId = activeWorkspaceId w") simp_all
  have g6: "workspaceId = [] \<longrightarrow>
            refreshThreadsTimer (ws_message P w data) = refreshThreadsTimer w
          \<and> timers (ws_message P w data) = timers w"
  proof
    assume e: "workspaceId = []"
    show "refreshThreadsTimer (ws_message P w data) = refreshThreadsTimer w
          \<and> timers (ws_message P w data) = timers w"
    proof (cases "threadId \<noteq> [] \<and> workspaceId = activeWorkspaceId w")
      case True
      have "scheduleRefreshThreads w2 workspaceId = w2"
        using e by (simp add: scheduleRefreshThreads_def)
      then show ?thesis using A [OF True] f2 by simp
    next
      case False
      then show ?thesis using B f1 by simp
    qed
  qed
  show ?thesis
    by (intro conjI; (fact g1 | fact g3 | fact g4 | fact g5 | fact g6))
qed

lemma sample_event_ids:
  "event_workspace_id (js_or (js_get sample_event ''params'') (JObj [])) = ''w1''"
  "event_thread_id (js_or (js_get (js_or (js_get sample_event ''params'') (JObj [])) ''message'') (JObj [])) = ''t1''"
  by (simp_all add: sample_event_def event_workspace_id_def event_thread_id_def js_or_def js_and_def)

theorem push_event_adopts_thread_and_schedules_witness:
  "activeThreadId idle_world = []
   \<and> activeThreadId (ws_message sample_event_parse idle_world sample_event_body) = ''t1''
   \<and> refreshThreadsTimer (ws_message sample_event_parse idle_world sample_event_body) \<noteq> None
   \<and> timers (ws_message sample_event_parse idle_world sample_event_body) = [(1, 600)]
   \<and> activeThreadId (ws_message sample_event_parse selected_world sample_event_body) = ''t2''"
proof -
  have p: "sample_event_parse (if sample_event_body \<noteq> [] then sample_event_body else ''{}'') = Some sample_event"
    by (simp add: sample_event_parse_def sample_event_body_def)
  have t: "js_get sample_event ''type''
      \<notin> {JStr ''gateway/ready'', JStr ''gateway/error'', JStr ''gateway/disconnected''}"
    by (simp add: sample_event_def)
  have m: "js_get sample_event ''method'' = JStr ''app-server-event''"
    by (simp add: sample_event_def)
  have f: "activeThreadId idle_world = []" "activeWorkspaceId idle_world = ''w1''"
    "refreshThreadsTimer idle_world = None" "timers idle_world = []" "timerSeq idle_world = 0"
    "clock idle_world = 0"
    by (simp_all add: idle_world_def initial_world_def)
  have g: "activeThreadId selected_world = ''t2''" "activeWorkspaceId selected_world = ''w1''"
    by (simp_all add: selected_world_def initial_world_def)
  show ?thesis
    using push_event_adopts_thread_and_schedules
            [where P = sample_event_parse and data = sample_event_body and pl = sample_event
               and w = idle_world, OF p t m refl refl refl]
      push_event_adopts_thread_and_schedules
            [where P = sample_event_parse and data = sample_event_body and pl = sample_event
               and w = selected_world, OF p t m refl refl refl]
    unfolding sample_event_ids using f g by simp
qed

section \<open>Request client: outcomes\<close>

lemma truthy_and_get: "truthy (js_and pl (js_get pl k)) = truthy (js_get pl k)"
  by (cases pl) (simp_all add: js_and_def)

text \<open>
  Claim C6. For every call of \<open>api\<close> that gets a response: a successful response never
  throws and returns the decoded body, which is null for an empty body, the parsed value when
  the text parses, and the object \<open>{raw: text}\<close> when it does not; a failure response throws an
  error whose message is the \<open>error\<close> field of the decoded body when that field is present
  (truthy), and otherwise the status code, a space and the status text.
\<close>

theorem api_success_never_throws_failure_throws:
  "(ok r \<longrightarrow> snd (api P w p q opts (Response r)) = Inr (decode_body P (body_text r)))
   \<and> (body_text r = [] \<longrightarrow> decode_body P (body_text r) = JNull)
   \<and> (body_text r \<noteq> [] \<and> P (body_text r) = Some v \<longrightarrow> decode_body P (body_text r) = v)
   \<and> (body_text r \<noteq> [] \<and> P (body_text r) = None
        \<longrightarrow> decode_body P (body_text r) = JObj [(''raw'', JStr (body_text r))])
   \<and> (\<not> ok r \<longrightarrow> snd (api P w p q opts (Response r))
          = Inl (Error (if truthy (js_get (decode_body P (body_text r)) ''error'')
                        then js_String (js_get (decode_body P (body_text r)) ''error'')
                        else show_nat (status r) @ '' '' @ statusText r)))"
  by (simp add: api_def api_result_def decode_body_def truthy_and_get Let_def)

lemma show_502: "show_nat 502 = ''502''"
  by code_simp

theorem api_success_never_throws_failure_throws_witness:
  "snd (api sample_error_parse initial_world ''/api/workspaces'' [] no_options
       (Response \<lparr>ok = False, status = 401, statusText = ''Unauthorized'', body_text = sample_error_body\<rparr>))
     = Inl (Error ''invalid token'')
   \<and> snd (api sample_error_parse initial_world ''/api/workspaces'' [] no_options
       (Response \<lparr>ok = False, status = 502, statusText = ''Bad Gateway'', body_text = ''oops''\<rparr>))
     = Inl (Error ''502 Bad Gateway'')
   \<and> snd (api sample_error_parse initial_world ''/api/workspaces'' [] no_options
       (Response \<lparr>ok = True, status = 200, statusText = ''OK'', body_text = ''oops''\<rparr>))
     = Inr (JObj [(''raw'', JStr ''oops'')])
   \<and> snd (api sample_error_parse initial_world ''/api/workspaces'' [] no_options
       (Response \<lparr>ok = True, status = 200, statusText = ''OK'', body_text = []\<rparr>))
     = Inr JNull"
  using api_success_never_throws_failure_throws
          [of "\<lparr>ok = False, status = 401, statusText = ''Unauthorized'', body_text = sample_error_body\<rparr>"
              sample_error_parse initial_world "''/api/workspaces''" "[]" no_options
              "JObj [(''error'', JStr ''invalid token'')]"]
    api_success_never_throws_failure_throws
          [of "\<lparr>ok = False, status = 502, statusText = ''Bad Gateway'', body_text = ''oops''\<rparr>"
              sample_error_parse initial_world "''/api/workspaces''" "[]" no_options JNull]
    api_success_never_throws_failure_throws
          [of "\<lparr>ok = True, status = 200, statusText = ''OK'', body_text = ''oops''\<rparr>"
              sample_error_parse initial_world "''/api/workspaces''" "[]" no_options JNull]
    api_success_never_throws_failure_throws
          [of "\<lparr>ok = True, status = 200, statusText = ''OK'', body_text = []\<rparr>"
              sample_error_parse initial_world "''/api/workspaces''" "[]" no_options JNull]
  by (simp add: sample_error_parse_def sample_error_body_def show_502)

section \<open>Preconditions of the operator actions\<close>

lemma dropWhile_all: "list_all p xs \<Longrightarrow> dropWhile p xs = []"
  by (induction xs) auto

lemma trim_blank: "list_all is_js_space s \<Longrightarrow> trim s = []"
  by (simp add: trim_def dropWhile_all)

lemma trim_empty_iff: "trim s = [] \<longleftrightarrow> list_all is_js_space s"
proof
  assume "trim s = []"
  then have "dropWhile is_js_space (rev (dropWhile is_js_space s)) = []"
    by (simp add: trim_def)
  then have a: "\<forall>c \<in> set (dropWhile is_js_space s). is_js_space c"
    by (simp add: dropWhile_eq_Nil_conv)
  have "dropWhile is_js_space s = []"
  proof (cases "dropWhile is_js_space s")
    case Nil
    then show ?thesis .
  next
    case (Cons c cs)
    then have "\<not> is_js_space c" using hd_dropWhile [of is_js_space s] by simp
    then show ?thesis using a Cons by simp
  qed
  then show "list_all is_js_space s" by (simp add: dropWhile_eq_Nil_conv list_all_iff)
next
  assume "list_all is_js_space s"
  then show "trim s = []" by (rule trim_blank)
qed

text \<open>
  Claim C7. Precondition violations are thrown before any request is sent. \<open>sendMessage()\<close>
  with no active workspace, with an empty resolved thread id, or with a message that is empty
  or only white space throws one of its three precondition errors and leaves the state, and
  so the list of requests sent, unchanged; \<open>resumeThread()\<close> does the same for its two
  preconditions. When the preconditions hold, exactly one request is sent. The thread id is
  the trimmed value of the thread input when that is non-empty, and the trimmed stored active
  id otherwise.
\<close>

theorem preconditions_throw_before_any_request:
  "(activeWorkspaceId w = [] \<or> resolveThreadId w = []
      \<or> list_all is_js_space (field_or (messageInput w) [])
    \<longrightarrow> (\<exists>m. sendMessage_begin w = (w, Thrown (Error m))
              \<and> m \<in> {''Select a workspace first'', ''Select a thread first'', ''Enter a message first''})
        \<and> net (fst (sendMessage_begin w)) = net w)
   \<and> (activeWorkspaceId w = [] \<or> resolveThreadId w = []
    \<longrightarrow> (\<exists>m. resumeThread_begin w = (w, Thrown (Error m))
              \<and> m \<in> {''Select a workspace first'', ''Select a thread first''})
        \<and> net (fst (resumeThread_begin w)) = net w)
   \<and> (activeWorkspaceId w \<noteq> [] \<and> resolveThreadId w \<noteq> []
        \<and> \<not> list_all is_js_space (field_or (messageInput w) [])
    \<longrightarrow> snd (sendMessage_begin w) = Awaiting
        \<and> length (net (fst (sendMessage_begin w))) = Suc (length (net w)))
   \<and> (activeWorkspaceId w \<noteq> [] \<and> resolveThreadId w \<noteq> []
    \<longrightarrow> snd (resumeThread_begin w) = Awaiting
        \<and> length (net (fst (resumeThread_begin w))) = Suc (length (net w)))
   \<and> resolveThreadId w
       = (case threadIdInput w of
            Some v \<Rightarrow> if v \<noteq> [] then trim v else trim (activeThreadId w)
          | None \<Rightarrow> trim (activeThreadId w))"
  by (auto simp: sendMessage_begin_def resumeThread_begin_def Let_def trim_empty_iff
        resolveThreadId_def field_or_def split: option.splits)

theorem preconditions_throw_before_any_request_witness:
  "activeWorkspaceId blank_message_world \<noteq> []
   \<and> resolveThreadId blank_message_world = ''t2''
   \<and> sendMessage_begin blank_message_world = (blank_message_world, Thrown (Error ''Enter a message first''))
   \<and> snd (resumeThread_begin blank_message_world) = Awaiting"
proof -
  have f: "activeWorkspaceId blank_message_world = ''w1''"
    "threadIdInput blank_message_world = Some ''t2''"
    "messageInput blank_message_world = Some ''   ''"
    by (simp_all add: blank_message_world_def selected_world_def initial_world_def)
  have t: "trim ''t2'' = ''t2''" by (simp add: trim_def is_js_space_def)
  have b: "list_all is_js_space (field_or (messageInput blank_message_world) [])"
    by (simp add: f field_or_def is_js_space_def)
  have r: "resolveThreadId blank_message_world = ''t2''"
    using preconditions_throw_before_any_request [of blank_message_world] f t by simp
  have "sendMessage_begin blank_message_world = (blank_message_world, Thrown (Error ''Enter a message first''))"
    using b f r by (simp add: sendMessage_begin_def trim_blank Let_def)
  then show ?thesis
    using preconditions_throw_before_any_request [of blank_message_world] f r by simp
qed

section \<open>Credential store: blank token\<close>

text \<open>
  Claim C10. Saving a token whose input is empty or only white space behaves as clearing it:
  the token held in memory becomes the empty string and the entry under the storage key is
  removed, exactly the token and the storage that the clear button leaves; the headers built
  for later calls then carry no \<open>Authorization\<close> entry (for callers that pass no headers of
  their own, as all callers in the script do).
\<close>

theorem blank_token_save_clears_credential:
  assumes "list_all is_js_space (case tokenInput w of None \<Rightarrow> [] | Some v \<Rightarrow> v)"
  shows "token (saveToken_click w) = []
    \<and> map_of (localStorage (saveToken_click w)) TOKEN_STORAGE_KEY = None
    \<and> token (saveToken_click w) = token (clearToken_click w)
    \<and> localStorage (saveToken_click w) = localStorage (clearToken_click w)
    \<and> map_of (authHeaders (saveToken_click w) None) ''Authorization'' = None
    \<and> (opt_headers opts = None
         \<longrightarrow> map_of (headers (api_request (saveToken_click w) p q opts)) ''Authorization'' = None)"
proof -
  have t: "trim (case tokenInput w of None \<Rightarrow> [] | Some v \<Rightarrow> v) = []"
    using assms by (rule trim_blank)
  have s: "saveToken_click w = w\<lparr>token := [], localStorage := AList.delete TOKEN_STORAGE_KEY (localStorage w)\<rparr>"
    by (simp add: saveToken_click_def t)
  show ?thesis
    unfolding s
    by (simp add: clearToken_click_def authHeaders_def api_request_def Let_def AList.delete_conv
          update_conv)
qed

theorem blank_token_save_clears_credential_witness:
  "token blank_token_world = ''secret''
   \<and> map_of (localStorage blank_token_world) TOKEN_STORAGE_KEY = Some ''secret''
   \<and> token (saveToken_click blank_token_world) = []
   \<and> map_of (localStorage (saveToken_click blank_token_world)) TOKEN_STORAGE_KEY = None
   \<and> map_of (headers (api_request (saveToken_click blank_token_world) ''/api/workspaces'' [] no_options))
         ''Authorization'' = None"
proof -
  have b: "list_all is_js_space (case tokenInput blank_token_world of None \<Rightarrow> [] | Some v \<Rightarrow> v)"
    by (simp add: blank_token_world_def initial_world_def is_js_space_def)
  have o: "opt_headers no_options = None"
    by (simp add: no_options_def)
  have t: "token blank_token_world = ''secret''"
    and l: "map_of (localStorage blank_token_world) TOKEN_STORAGE_KEY = Some ''secret''"
    by (simp_all add: blank_token_world_def initial_world_def)
  from blank_token_save_clears_credential [OF b, of no_options "''/api/workspaces''" "[]"] o t l
  show ?thesis by blast
qed

end
